theory Spec2Isabelle
  imports Complex_Main "HOL-Library.Multiset"
begin

section \<open>Python and numpy values\<close>

text \<open>
  The converter is a Python script working on numpy arrays and on the records of a Tobii
  eye-tracker log (one JSON object per line). Exceptions are values of type \<open>error\<close>; a
  function that may raise returns \<open>error + 'a\<close> with \<open>Inl\<close> for the exception.

  Numbers (float64 samples, JSON numbers) are modelled as reals: rounding, signed zeros
  and overflow are not represented. The two places where numpy produces \<open>nan\<close> or
  \<open>inf\<close> instead of a number (the mean of an empty array, division by zero) are
  written out, see \<open>npfloat\<close> below. A JSON \<open>null\<close> is \<open>PNone\<close>, a JSON boolean
  the number 0 or 1 (as Python's arithmetic takes it); the Tobii log has no nested objects.
\<close>

datatype error = TypeError | KeyError | IndexError | SystemExit

datatype pyval = PNone | PNum real | PStr string | PList "pyval list"

type_synonym tobii_record = "string \<rightharpoonup> pyval"

text \<open>
  \<open>main\<close> passes either the list of loaded records or the literal \<open>False\<close> when no
  Tobii file was named on the command line.
\<close>

datatype tobii_input = TobiiFalse | TobiiRecords "tobii_record list"

text \<open>\<open>np.diff\<close> of a one-dimensional array: consecutive differences, empty below two samples.\<close>

fun np_diff :: "real list \<Rightarrow> real list" where
  "np_diff (x # y # zs) = (y - x) # np_diff (y # zs)"
| "np_diff [x] = []"
| "np_diff [] = []"

text \<open>\<open>np.where(mask)[0]\<close>: the positions where a boolean array is true, ascending.\<close>

definition np_where :: "bool list \<Rightarrow> nat list" where
  "np_where cond = filter (\<lambda>i. cond ! i) [0..<length cond]"

text \<open>\<open>np.nonzero(a)[0]\<close>: the positions of the nonzero entries, ascending.\<close>

definition np_nonzero :: "real list \<Rightarrow> nat list" where
  "np_nonzero a = filter (\<lambda>i. a ! i \<noteq> 0) [0..<length a]"

text \<open>Indexing a sequence with a non-negative index; out of range raises \<open>IndexError\<close>.\<close>

definition index :: "'a list \<Rightarrow> nat \<Rightarrow> error + 'a" where
  "index xs i = (if i < length xs then Inr (xs ! i) else Inl IndexError)"

text \<open>
  \<open>filter(lambda x: x.__contains__(prop), tobii_data)\<close>. Iterating \<open>False\<close> raises
  \<open>TypeError\<close>. The script subscripts the result of \<open>filter\<close>, which is a list under
  Python 2, so the filters are evaluated where they are written. (Under Python 3 the
  result is an iterator: the channel functions consume it at once in \<open>sorted\<close>, with the
  same outcome, and the subscript on line 184 raises \<open>TypeError\<close>.)
\<close>

definition filter_contains :: "string \<Rightarrow> tobii_input \<Rightarrow> error + tobii_record list" where
  "filter_contains prop tobii_data =
     (case tobii_data of
        TobiiFalse \<Rightarrow> Inl TypeError
      | TobiiRecords rs \<Rightarrow> Inr (filter (\<lambda>x. x prop \<noteq> None) rs))"

text \<open>
  \<open>filter(lambda y: y[key] == s, records)\<close>: the subscript raises \<open>KeyError\<close> at
  the first record that lacks the key.
\<close>

fun filter_key_equals :: "string \<Rightarrow> string \<Rightarrow> tobii_record list \<Rightarrow> error + tobii_record list" where
  "filter_key_equals k s [] = Inr []"
| "filter_key_equals k s (y # ys) =
     (case y k of
        None \<Rightarrow> Inl KeyError
      | Some v \<Rightarrow>
          (case filter_key_equals k s ys of
             Inl e \<Rightarrow> Inl e
           | Inr zs \<Rightarrow> Inr (if v = PStr s then y # zs else zs)))"

section \<open>determine\_offsets\<close>

text \<open>Line 180: \<open>np.logical_and(np.diff(trigger) > 1, np.diff(trigger) < 5)\<close>.\<close>

definition trigger_on_erg :: "real list \<Rightarrow> bool list" where
  "trigger_on_erg trigger = map (\<lambda>d. d > 1 \<and> d < 5) (np_diff trigger)"

text \<open>Line 181: the records that have a \<open>dir\<close> field equal to \<open>out\<close>.\<close>

definition sync_trigger_tobii :: "tobii_input \<Rightarrow> error + tobii_record list" where
  "sync_trigger_tobii tobii_data =
     (case filter_contains ''dir'' tobii_data of
        Inl e \<Rightarrow> Inl e
      | Inr rs \<Rightarrow> filter_key_equals ''dir'' ''out'' rs)"

text \<open>Line 182: \<open>time[np.where(trigger_on_erg)[0][3]]\<close>.\<close>

definition sync_trigger_eeg :: "real list \<Rightarrow> real list \<Rightarrow> error + real" where
  "sync_trigger_eeg time trigger =
     (case index (np_where (trigger_on_erg trigger)) 3 of
        Inl e \<Rightarrow> Inl e
      | Inr i \<Rightarrow> index time i)"

text \<open>
  Line 184 adds \<open>10*10**6\<close> to \<open>sync_trigger_tobii[0]\<close>, which is a record (a
  \<open>dict\<close>), not its timestamp. A \<open>dict\<close> has no addition with a number: the
  expression raises \<open>TypeError\<close> whatever the record holds. On an empty list the
  subscript raises \<open>IndexError\<close> before that.
\<close>

definition dict_add :: "tobii_record \<Rightarrow> real \<Rightarrow> error + pyval" where
  "dict_add d n = Inl TypeError"

definition determine_offsets ::
  "real list \<Rightarrow> real list \<Rightarrow> tobii_input \<Rightarrow> error + (real \<times> pyval)" where
  "determine_offsets time trigger tobii_data =
     (case sync_trigger_tobii tobii_data of
        Inl e \<Rightarrow> Inl e
      | Inr st \<Rightarrow>
          (case sync_trigger_eeg time trigger of
             Inl e \<Rightarrow> Inl e
           | Inr se \<Rightarrow>
               (case index st 0 of
                  Inl e \<Rightarrow> Inl e
                | Inr r \<Rightarrow>
                    (case dict_add r (10 * 10 ^ 6) of
                       Inl e \<Rightarrow> Inl e
                     | Inr v \<Rightarrow> Inr (se, v)))))"

text \<open>
  The specification's wording of a sync-class edge, for comparison with line 180: a
  transition whose difference has a magnitude strictly between 1 and 5.
\<close>

definition spec_sync_class_edges :: "real list \<Rightarrow> nat list" where
  "spec_sync_class_edges trigger =
     filter (\<lambda>i. 1 < \<bar>np_diff trigger ! i\<bar> \<and> \<bar>np_diff trigger ! i\<bar> < 5)
       [0..<length (np_diff trigger)]"

section \<open>The annotated-array store\<close>

text \<open>
  The nixio calls of the script (\<open>create_data_array\<close>, \<open>append_..._dimension\<close>,
  \<open>create_multi_tag\<close>, \<open>references.append\<close>, ...) are modelled by what they record:
  a block holds the data arrays, multi-tags and tags created so far, in creation order.
  The store itself is taken to accept every call. Metadata sections (\<open>write_session_metadata\<close>,
  \<open>write_eeg_hardware_metadata\<close>, \<open>write_channel_metadata\<close>) and the file handle are left
  out: no array, dimension, tag or group depends on them. An array is identified by its name,
  which is what a group or a tag stores for it (\<open>da.id\<close> in the script; the names created
  in one block are distinct).

  A numpy scalar that may be \<open>nan\<close> or \<open>inf\<close>:
\<close>

datatype npfloat = Finite real | PosInf | NaN

datatype dimension =
    SampledDimension npfloat string string
  | RangeDimension "real list" string string
  | AliasRangeDimension
  | SetDimension "string list"

datatype array_data = Vector "real list" | Table "pyval list list"

text \<open>
  A description is a fixed text followed by \<open>str(offset)\<close> and a fixed suffix; the offset
  is kept as a value, not printed to digits.
\<close>

datatype description = Description string pyval string

record data_array =
  da_name :: string
  da_type :: string
  da_data :: array_data
  da_label :: "string option"
  da_unit :: "string option"
  da_description :: "description option"
  da_dimensions :: "dimension list"

record multi_tag =
  mt_name :: string
  mt_type :: string
  mt_positions :: string
  mt_extents :: "string option"
  mt_references :: "string list"

record tag =
  tag_name :: string
  tag_type :: string
  tag_position :: "real list"
  tag_extent :: "real list"
  tag_units :: "string list"
  tag_references :: "string list"
  tag_features :: "string list"

record group =
  g_name :: string
  g_type :: string
  g_data_arrays :: "string list"

datatype stream = Stdout | Stderr

text \<open>The block under construction, together with the lines printed while it is built.\<close>

record block =
  data_arrays :: "data_array list"
  multi_tags :: "multi_tag list"
  tags :: "tag list"
  printed :: "(stream \<times> string) list"

definition create_data_array :: "block \<Rightarrow> data_array \<Rightarrow> block" where
  "create_data_array b da = b\<lparr>data_arrays := data_arrays b @ [da]\<rparr>"

definition create_multi_tag :: "block \<Rightarrow> multi_tag \<Rightarrow> block" where
  "create_multi_tag b mt = b\<lparr>multi_tags := multi_tags b @ [mt]\<rparr>"

definition create_tag :: "block \<Rightarrow> tag \<Rightarrow> block" where
  "create_tag b t = b\<lparr>tags := tags b @ [t]\<rparr>"

definition print :: "stream \<Rightarrow> string \<Rightarrow> block \<Rightarrow> block" where
  "print f line b = b\<lparr>printed := printed b @ [(f, line)]\<rparr>"

definition create_group :: "string \<Rightarrow> string \<Rightarrow> group" where
  "create_group name type = \<lparr>g_name = name, g_type = type, g_data_arrays = []\<rparr>"

definition append_to_group :: "group \<Rightarrow> string \<Rightarrow> group" where
  "append_to_group g a = g\<lparr>g_data_arrays := g_data_arrays g @ [a]\<rparr>"

text \<open>\<open>"%d" % n\<close> for a natural number.\<close>

fun digits :: "nat \<Rightarrow> string" where
  "digits n =
     (if n < 10 then [''0123456789'' ! n]
      else digits (n div 10) @ [''0123456789'' ! (n mod 10)])"

declare digits.simps [simp del]

section \<open>write\_channel\_data\<close>

text \<open>
  \<open>np.mean\<close> of an empty array is \<open>nan\<close> (with a warning, no exception); \<open>1./dt\<close> on a
  numpy scalar that is zero is \<open>inf\<close>; a comparison with \<open>nan\<close> is false.
\<close>

definition np_mean :: "real list \<Rightarrow> npfloat" where
  "np_mean xs = (if xs = [] then NaN else Finite (sum_list xs / real (length xs)))"

text \<open>Line 76: \<open>1./dt - sr\<close>.\<close>

definition rate_minus :: "npfloat \<Rightarrow> real \<Rightarrow> npfloat" where
  "rate_minus dt sr =
     (case dt of
        NaN \<Rightarrow> NaN
      | PosInf \<Rightarrow> Finite (0 - sr)
      | Finite x \<Rightarrow> (if x = 0 then PosInf else Finite (1 / x - sr)))"

definition np_greater :: "npfloat \<Rightarrow> real \<Rightarrow> bool" where
  "np_greater x y = (case x of NaN \<Rightarrow> False | PosInf \<Rightarrow> True | Finite r \<Rightarrow> r > y)"

text \<open>\<open>np.finfo(np.float32).eps\<close>.\<close>

definition float32_eps :: real where
  "float32_eps = 1 / 2 ^ 23"

text \<open>Line 77: the strategy is decided before the loop over the channels.\<close>

definition use_range :: "real list \<Rightarrow> real \<Rightarrow> bool" where
  "use_range time sr = np_greater (rate_minus (np_mean (np_diff time)) sr) float32_eps"

text \<open>Lines 86 to 102: one pass of the loop, for channel \<open>ch\<close>.\<close>

definition channel_array :: "real list list \<Rightarrow> real list \<Rightarrow> real \<Rightarrow> pyval \<Rightarrow> nat \<Rightarrow> data_array" where
  "channel_array data time sr offset ch =
     \<lparr>da_name = ''channel '' @ digits (ch + 1),
      da_type = ''nix.eeg.channeldata'',
      da_data = Vector (data ! ch),
      da_label = Some ''voltage'',
      da_unit = Some ''uV'',
      da_description = Some (Description ''The time dimension has been modified by -'' offset ''''),
      da_dimensions =
        [if use_range time sr then RangeDimension time ''s'' ''time''
         else SampledDimension (np_mean (np_diff time)) ''s'' ''time'']\<rparr>"

definition write_channel :: "real list list \<Rightarrow> real list \<Rightarrow> real \<Rightarrow> pyval \<Rightarrow> nat \<Rightarrow> block \<times> group \<Rightarrow> block \<times> group" where
  "write_channel data time sr offset ch bg =
     (let da = channel_array data time sr offset ch
      in (create_data_array (fst bg) da, append_to_group (snd bg) (da_name da)))"

definition write_channel_data :: "block \<Rightarrow> real list list \<Rightarrow> real list \<Rightarrow> real \<Rightarrow> pyval \<Rightarrow> block \<times> group" where
  "write_channel_data block data time sr offset =
     (let group = create_group ''eeg data'' ''nix.eeg.channels'';
          b = (if use_range time sr
               then print Stderr
                 ''sampling rate does not match timestamps using range dimension (need more space!)''
                 block
               else block);
          nchan = length data
      in fold (write_channel data time sr offset) [0..<nchan] (b, group))"

section \<open>save\_events\<close>

text \<open>\<open>a[mask]\<close> for a boolean array as long as \<open>a\<close>: the entries where the mask is true.\<close>

definition np_select :: "'a list \<Rightarrow> bool list \<Rightarrow> 'a list" where
  "np_select a cond = map fst (filter snd (zip a cond))"

text \<open>Line 109: \<open>np.nonzero(np.diff(trigger))\<close>, the positions where the trigger changes.\<close>

definition indices :: "real list \<Rightarrow> nat list" where
  "indices trigger = np_nonzero (np_diff trigger)"

text \<open>
  Line 108: \<open>trigger[np.nonzero(np.diff(trigger))]\<close>. Position \<open>i\<close> of the difference
  array belongs to the step from sample \<open>i\<close> to sample \<open>i + 1\<close>, so the level read is
  that of sample \<open>i\<close>.
\<close>

definition states :: "real list \<Rightarrow> real list" where
  "states trigger = map (\<lambda>i. trigger ! i) (indices trigger)"

text \<open>Line 110: the sample positions divided by the literal 512.\<close>

definition times :: "real list \<Rightarrow> real list" where
  "times trigger = map (\<lambda>i. real i / 512) (indices trigger)"

definition corners :: "real list \<Rightarrow> real list" where
  "corners trigger = np_select (times trigger) (map (\<lambda>s. s = 8 \<or> s = 10) (states trigger))"

definition exp_start :: "real list \<Rightarrow> real list" where
  "exp_start trigger = np_select (times trigger) (map (\<lambda>s. s = 4 \<or> s = 6) (states trigger))"

text \<open>Lines 127 to 131.\<close>

definition extents :: "real list \<Rightarrow> real list" where
  "extents trigger =
     (let ones = replicate (length (exp_start trigger)) 1
      in if length ones > 1 then ones[length ones - 1 := 100] else [100])"

definition timestamps_array :: "string \<Rightarrow> string \<Rightarrow> real list \<Rightarrow> data_array" where
  "timestamps_array name type values =
     \<lparr>da_name = name, da_type = type, da_data = Vector values,
      da_label = Some ''time'', da_unit = Some ''s'', da_description = None,
      da_dimensions = [AliasRangeDimension]\<rparr>"

text \<open>
  Lines 139 to 147: each array of a group is announced and appended to the references of
  both multi-tags.
\<close>

definition quoted :: "string \<Rightarrow> string" where
  "quoted s = [CHR 0x27] @ s @ [CHR 0x27]"

definition apply_multi_tags :: "string \<Rightarrow> group \<Rightarrow> block \<times> multi_tag \<times> multi_tag \<Rightarrow> block \<times> multi_tag \<times> multi_tag" where
  "apply_multi_tags line g =
     fold (\<lambda>da (b, exp_starts, corner_events).
             (print Stdout (line @ quoted da) b,
              exp_starts\<lparr>mt_references := mt_references exp_starts @ [da]\<rparr>,
              corner_events\<lparr>mt_references := mt_references corner_events @ [da]\<rparr>))
       (g_data_arrays g)"

definition save_events :: "block \<Rightarrow> real list \<Rightarrow> group \<Rightarrow> group \<Rightarrow> block" where
  "save_events block trigger group_eeg group_tobii =
     (let b1 = (if length (exp_start trigger) < 1
                then print Stdout ''WARNING/EEG: Did not find experiment start condition'' block
                else block);
          b2 = create_data_array b1 (timestamps_array ''corner_times'' ''nix.timestamps'' (corners trigger));
          corner_events = \<lparr>mt_name = ''corners'', mt_type = ''nix.eeg.event'',
                           mt_positions = ''corner_times'', mt_extents = None, mt_references = []\<rparr>;
          b3 = create_data_array b2 (timestamps_array ''experiment times'' ''nix.timestamps'' (exp_start trigger));
          b4 = create_data_array b3 (timestamps_array ''experiment durations'' ''nix.extents'' (extents trigger));
          exp_starts = \<lparr>mt_name = ''experiment starts'', mt_type = ''nix.eeg.event'',
                        mt_positions = ''experiment times'', mt_extents = Some ''experiment durations'',
                        mt_references = []\<rparr>;
          (b5, exp_starts1, corner_events1) =
             apply_multi_tags ''INFO/TAGS: Applying multi_tags to EEG data '' group_eeg
               (b4, exp_starts, corner_events);
          (b6, exp_starts2, corner_events2) =
             apply_multi_tags ''INFO/TAGS: Applying multi_tags to TOBII data '' group_tobii
               (b5, exp_starts1, corner_events1)
      in create_multi_tag (create_multi_tag b6 corner_events2) exp_starts2)"

text \<open>
  The specification's wording of the extraction, for comparison with lines 108 to 112: the
  instant of a transition is its index divided by the sampling rate of the primary stream,
  and the level that classifies it is the one after the transition.
\<close>

definition spec_markers :: "real set \<Rightarrow> real \<Rightarrow> real list \<Rightarrow> real list" where
  "spec_markers levels sr trigger =
     map (\<lambda>i. real i / sr)
       (filter (\<lambda>i. trigger ! (i + 1) \<noteq> trigger ! i \<and> trigger ! (i + 1) \<in> levels)
          [0..<length trigger - 1])"

section \<open>write\_trigger\_signal\<close>

text \<open>\<open>time[-1]\<close>: the last sample, \<open>IndexError\<close> on an empty array.\<close>

definition last_sample :: "real list \<Rightarrow> error + real" where
  "last_sample time = (if time = [] then Inl IndexError else Inr (last time))"

definition write_trigger_signal :: "block \<Rightarrow> real list \<Rightarrow> real list \<Rightarrow> group \<Rightarrow> pyval \<Rightarrow> error + block" where
  "write_trigger_signal block trigger time da_group offset =
     (let trigger_da =
            \<lparr>da_name = ''trigger signal'', da_type = ''nix.eeg.trigger'', da_data = Vector trigger,
             da_label = Some ''voltage'', da_unit = Some ''mV'',
             da_description = Some (Description ''The time dimension has been modified by -'' offset ''''),
             da_dimensions = [SampledDimension (np_mean (np_diff time)) ''s'' ''time'']\<rparr>;
          b = create_data_array block trigger_da
      in case last_sample time of
           Inl e \<Rightarrow> Inl e
         | Inr t \<Rightarrow>
             Inr (create_tag b
                    \<lparr>tag_name = ''trigger signal'', tag_type = ''nix.eeg.trigger'',
                     tag_position = [0], tag_extent = [t], tag_units = [''s''],
                     tag_references = g_data_arrays da_group,
                     tag_features = [''trigger signal'']\<rparr>))"

section \<open>The Tobii property channels\<close>

text \<open>Subscripting a record with a key, \<open>e[k]\<close>: \<open>KeyError\<close> when the key is absent.\<close>

definition lookup :: "tobii_record \<Rightarrow> string \<Rightarrow> error + pyval" where
  "lookup e k = (case e k of None \<Rightarrow> Inl KeyError | Some v \<Rightarrow> Inr v)"

text \<open>Subscripting a value with a position, \<open>v[i]\<close>.\<close>

fun subscript :: "pyval \<Rightarrow> nat \<Rightarrow> error + pyval" where
  "subscript (PList vs) i = index vs i"
| "subscript (PStr s) i = (if i < length s then Inr (PStr [s ! i]) else Inl IndexError)"
| "subscript (PNum x) i = Inl TypeError"
| "subscript PNone i = Inl TypeError"

text \<open>
  \<open>e["ts"] - tobii_offset\<close>: defined between numbers only. An offset given on the command
  line arrives as a string.
\<close>

fun minus_offset :: "pyval \<Rightarrow> pyval \<Rightarrow> error + real" where
  "minus_offset (PNum t) (PNum offset) = Inr (t - offset)"
| "minus_offset t offset = Inl TypeError"

text \<open>The items of a list display, evaluated left to right; the first exception wins.\<close>

fun gather :: "(error + 'a) list \<Rightarrow> error + 'a list" where
  "gather [] = Inr []"
| "gather (Inl e # ms) = Inl e"
| "gather (Inr v # ms) = (case gather ms of Inl e \<Rightarrow> Inl e | Inr vs \<Rightarrow> Inr (v # vs))"

definition bind_err :: "error + 'a \<Rightarrow> ('a \<Rightarrow> error + 'b) \<Rightarrow> error + 'b" where
  "bind_err m f = (case m of Inl e \<Rightarrow> Inl e | Inr x \<Rightarrow> f x)"

text \<open>
  The fourteen \<open>write_tobii_...\<close> functions share one body. What differs between them is
  collected in a \<open>channel\<close>: the property key, the eye to select (for the six functions that
  take an \<open>eye\<close> argument), the name and label of the array, the unit and the end of the
  description set in the non-empty branch, the labels of the set dimension, and the row
  appended to \<open>combined\<close> for a record.
\<close>

record channel =
  ch_prop :: string
  ch_eye :: "string option"
  ch_name :: string
  ch_label :: string
  ch_unit :: "string option"
  ch_suffix :: string
  ch_labels :: "string list"
  ch_row :: "tobii_record \<Rightarrow> error + pyval list"

text \<open>The variable \<open>filtered\<close>: the records with the property, of the given eye if any.\<close>

definition filtered :: "channel \<Rightarrow> tobii_input \<Rightarrow> error + tobii_record list" where
  "filtered c tobii_data =
     (case filter_contains (ch_prop c) tobii_data of
        Inl e \<Rightarrow> Inl e
      | Inr rs \<Rightarrow>
          (case ch_eye c of
             None \<Rightarrow> Inr rs
           | Some eye \<Rightarrow> filter_key_equals ''eye'' eye rs))"

definition ts_of :: "tobii_record \<Rightarrow> real" where
  "ts_of e = (case e ''ts'' of Some (PNum t) \<Rightarrow> t | _ \<Rightarrow> 0)"

definition is_number :: "pyval \<Rightarrow> bool" where
  "is_number v = (case v of PNum t \<Rightarrow> True | _ \<Rightarrow> False)"

text \<open>
  \<open>sorted(filtered, key=operator.itemgetter("ts"))\<close>: the keys are read first
  (\<open>KeyError\<close> for a record without \<open>ts\<close>), then the records are sorted by key, stably.
  A timestamp that is not a number ends in \<open>TypeError\<close>: under Python 3 inside
  \<open>sorted\<close> or at the first subtraction of the offset; under Python 2, which orders
  values of any types, at a subtraction of the offset in the loop.
\<close>

definition sorted_by_ts :: "tobii_record list \<Rightarrow> error + tobii_record list" where
  "sorted_by_ts rs =
     (if list_ex (\<lambda>e. e ''ts'' = None) rs then Inl KeyError
      else if list_ex (\<lambda>e. \<not> is_number (the (e ''ts''))) rs then Inl TypeError
      else Inr (sort_key ts_of rs))"

text \<open>The loop \<open>for e in tobii_pc_data\<close>, building \<open>ts\<close> and \<open>combined\<close>.\<close>

fun collect :: "(tobii_record \<Rightarrow> error + pyval list) \<Rightarrow> pyval \<Rightarrow> tobii_record list \<Rightarrow>
    error + (real list \<times> pyval list list)" where
  "collect row tobii_offset [] = Inr ([], [])"
| "collect row tobii_offset (e # es) =
     (case lookup e ''ts'' of
        Inl err \<Rightarrow> Inl err
      | Inr t \<Rightarrow>
          (case minus_offset t tobii_offset of
             Inl err \<Rightarrow> Inl err
           | Inr t' \<Rightarrow>
               (case row e of
                  Inl err \<Rightarrow> Inl err
                | Inr r \<Rightarrow>
                    (case collect row tobii_offset es of
                       Inl err \<Rightarrow> Inl err
                     | Inr (ts, combined) \<Rightarrow> Inr (t' # ts, r # combined)))))"

definition samples :: "channel \<Rightarrow> tobii_input \<Rightarrow> pyval \<Rightarrow> error + (real list \<times> pyval list list)" where
  "samples c tobii_data tobii_offset =
     bind_err (filtered c tobii_data) (\<lambda>rs.
     bind_err (sorted_by_ts rs) (\<lambda>tobii_pc_data.
     collect (ch_row c) tobii_offset tobii_pc_data))"

text \<open>
  The array as it stands at the end of the function: in the empty branch only the label and
  an unlabelled set dimension are set; in the other branch unit, description, the range
  dimension of the corrected timestamps and the labelled set dimension.
\<close>

definition property_array :: "channel \<Rightarrow> pyval \<Rightarrow> real list \<Rightarrow> pyval list list \<Rightarrow> data_array" where
  "property_array c tobii_offset ts combined =
     (if length combined < 1
      then \<lparr>da_name = ch_name c, da_type = ''nix.tobii.property'', da_data = Table combined,
            da_label = Some (ch_label c), da_unit = None, da_description = None,
            da_dimensions = [SetDimension []]\<rparr>
      else \<lparr>da_name = ch_name c, da_type = ''nix.tobii.property'', da_data = Table combined,
            da_label = Some (ch_label c), da_unit = ch_unit c,
            da_description =
              Some (Description ''The timestamp has been modified by an offset of -''
                      tobii_offset (ch_suffix c)),
            da_dimensions =
              [RangeDimension ts ''us'' ''timestamp'', SetDimension (ch_labels c)]\<rparr>)"

definition write_property :: "channel \<Rightarrow> block \<Rightarrow> pyval \<Rightarrow> real list \<Rightarrow> pyval list list \<Rightarrow> block" where
  "write_property c b tobii_offset ts combined =
     (let b1 = create_data_array b (property_array c tobii_offset ts combined)
      in if length combined < 1
         then print Stdout (''INFO/TOBII: no '' @ quoted (ch_prop c) @ '' data found'') b1
         else b1)"

text \<open>The six functions that return the array and leave the group to the caller.\<close>

definition write_eye_channel :: "channel \<Rightarrow> block \<Rightarrow> tobii_input \<Rightarrow> pyval \<Rightarrow> error + (block \<times> data_array)" where
  "write_eye_channel c b tobii_data tobii_offset =
     (case samples c tobii_data tobii_offset of
        Inl e \<Rightarrow> Inl e
      | Inr (ts, combined) \<Rightarrow>
          Inr (write_property c b tobii_offset ts combined,
               property_array c tobii_offset ts combined))"

text \<open>
  The eight functions that take the group: the array is appended to it at the end of the
  non-empty branch only.
\<close>

definition write_group_channel :: "channel \<Rightarrow> block \<Rightarrow> group \<Rightarrow> tobii_input \<Rightarrow> pyval \<Rightarrow> error + (block \<times> group)" where
  "write_group_channel c b g tobii_data tobii_offset =
     (case samples c tobii_data tobii_offset of
        Inl e \<Rightarrow> Inl e
      | Inr (ts, combined) \<Rightarrow>
          Inr (write_property c b tobii_offset ts combined,
               if length combined < 1 then g else append_to_group g (ch_name c)))"

text \<open>The rows: \<open>[e[prop], e["s"]]\<close>, \<open>[v[0], v[1], v[2], e["s"]]\<close> and the three special ones.\<close>

definition row_scalar :: "string \<Rightarrow> tobii_record \<Rightarrow> error + pyval list" where
  "row_scalar prop e = gather [lookup e prop, lookup e ''s'']"

definition row_vector :: "string \<Rightarrow> tobii_record \<Rightarrow> error + pyval list" where
  "row_vector prop e =
     bind_err (lookup e prop) (\<lambda>coord.
       gather [subscript coord 0, subscript coord 1, subscript coord 2, lookup e ''s''])"

definition row_gaze_pos :: "tobii_record \<Rightarrow> error + pyval list" where
  "row_gaze_pos e =
     bind_err (lookup e ''gp'') (\<lambda>gaze_pos.
       gather [subscript gaze_pos 0, subscript gaze_pos 1, lookup e ''l'', lookup e ''s''])"

definition row_pipe_ts :: "tobii_record \<Rightarrow> error + pyval list" where
  "row_pipe_ts e = gather [lookup e ''pts'', lookup e ''pv'', lookup e ''s'']"

definition row_sync_port :: "tobii_record \<Rightarrow> error + pyval list" where
  "row_sync_port e =
     bind_err (lookup e ''dir'') (\<lambda>d.
       gather [Inr (PNum (if d = PStr ''in'' then 1 else 0)), lookup e ''sig'', lookup e ''s''])"

definition pupil_center :: "string \<Rightarrow> channel" where
  "pupil_center eye =
     \<lparr>ch_prop = ''pc'', ch_eye = Some eye, ch_name = ''pupil center '' @ eye,
      ch_label = ''coordinates'', ch_unit = Some ''mm'', ch_suffix = '''',
      ch_labels = [''X'', ''Y'', ''Z'', ''error''], ch_row = row_vector ''pc''\<rparr>"

definition pupil_diameter :: "string \<Rightarrow> channel" where
  "pupil_diameter eye =
     \<lparr>ch_prop = ''pd'', ch_eye = Some eye, ch_name = ''pupil diameter '' @ eye,
      ch_label = ''pupil diameter'', ch_unit = Some ''mm'', ch_suffix = '''',
      ch_labels = [''diameter'', ''error''], ch_row = row_scalar ''pd''\<rparr>"

definition gaze_dir :: "string \<Rightarrow> channel" where
  "gaze_dir eye =
     \<lparr>ch_prop = ''gd'', ch_eye = Some eye, ch_name = ''gaze direction '' @ eye,
      ch_label = ''gaze direction'', ch_unit = None, ch_suffix = '''',
      ch_labels = [''X'', ''Y'', ''Z'', ''error''], ch_row = row_vector ''gd''\<rparr>"

definition gaze_pos :: channel where
  "gaze_pos =
     \<lparr>ch_prop = ''gp'', ch_eye = None, ch_name = ''gaze position'',
      ch_label = ''positions'', ch_unit = None, ch_suffix = '''',
      ch_labels = [''X'', ''Y'', ''l'', ''error''], ch_row = row_gaze_pos\<rparr>"

definition gaze_pos_3d :: channel where
  "gaze_pos_3d =
     \<lparr>ch_prop = ''gp3'', ch_eye = None, ch_name = ''gaze position 3D'',
      ch_label = ''positions'', ch_unit = Some ''mm'', ch_suffix = '''',
      ch_labels = [''X'', ''Y'', ''Z'', ''error''], ch_row = row_vector ''gp3''\<rparr>"

definition gyroscope :: channel where
  "gyroscope =
     \<lparr>ch_prop = ''gy'', ch_eye = None, ch_name = ''MEMS gyroscope'',
      ch_label = ''rotation'', ch_unit = None, ch_suffix = '''',
      ch_labels = [''X'', ''Y'', ''Z'', ''error''], ch_row = row_vector ''gy''\<rparr>"

definition accelerometer :: channel where
  "accelerometer =
     \<lparr>ch_prop = ''ac'', ch_eye = None, ch_name = ''MEMS accelerometer'',
      ch_label = ''rotation'', ch_unit = Some ''m/s^2'', ch_suffix = '''',
      ch_labels = [''X'', ''Y'', ''Z'', ''error''], ch_row = row_vector ''ac''\<rparr>"

definition pipe_ts :: channel where
  "pipe_ts =
     \<lparr>ch_prop = ''pts'', ch_eye = None, ch_name = ''pipeline timestamp'',
      ch_label = ''pipeline timestamp'', ch_unit = Some ''us'', ch_suffix = '''',
      ch_labels = [''pipe timestamp'', ''pipe version'', ''error''], ch_row = row_pipe_ts\<rparr>"

definition video_ts :: channel where
  "video_ts =
     \<lparr>ch_prop = ''vts'', ch_eye = None, ch_name = ''video timestamp'',
      ch_label = ''video timestamp'', ch_unit = Some ''us'', ch_suffix = '''',
      ch_labels = [''video timestamp'', ''error''], ch_row = row_scalar ''vts''\<rparr>"

definition eye_video_ts :: channel where
  "eye_video_ts =
     \<lparr>ch_prop = ''evts'', ch_eye = None, ch_name = ''evts'',
      ch_label = ''eye video timestamp'', ch_unit = Some ''us'', ch_suffix = '''',
      ch_labels = [''eye video timestamp'', ''error''], ch_row = row_scalar ''evts''\<rparr>"

definition sync_port :: channel where
  "sync_port =
     \<lparr>ch_prop = ''dir'', ch_eye = None, ch_name = ''sync port'',
      ch_label = ''sync port'', ch_unit = None, ch_suffix = ''; direction 0=out, 1=in'',
      ch_labels = [''direction'', ''signal'', ''error''], ch_row = row_sync_port\<rparr>"

definition write_tobii_pupil_center :: "block \<Rightarrow> tobii_input \<Rightarrow> pyval \<Rightarrow> string \<Rightarrow> error + (block \<times> data_array)" where
  "write_tobii_pupil_center b tobii_data tobii_offset eye =
     write_eye_channel (pupil_center eye) b tobii_data tobii_offset"

definition write_tobii_pupil_diameter :: "block \<Rightarrow> tobii_input \<Rightarrow> pyval \<Rightarrow> string \<Rightarrow> error + (block \<times> data_array)" where
  "write_tobii_pupil_diameter b tobii_data tobii_offset eye =
     write_eye_channel (pupil_diameter eye) b tobii_data tobii_offset"

definition write_tobii_gaze_dir :: "block \<Rightarrow> tobii_input \<Rightarrow> pyval \<Rightarrow> string \<Rightarrow> error + (block \<times> data_array)" where
  "write_tobii_gaze_dir b tobii_data tobii_offset eye =
     write_eye_channel (gaze_dir eye) b tobii_data tobii_offset"

definition write_tobii_gaze_pos :: "block \<Rightarrow> group \<Rightarrow> tobii_input \<Rightarrow> pyval \<Rightarrow> error + (block \<times> group)" where
  "write_tobii_gaze_pos b g tobii_data tobii_offset =
     write_group_channel gaze_pos b g tobii_data tobii_offset"

definition write_tobii_gaze_pos_3d :: "block \<Rightarrow> group \<Rightarrow> tobii_input \<Rightarrow> pyval \<Rightarrow> error + (block \<times> group)" where
  "write_tobii_gaze_pos_3d b g tobii_data tobii_offset =
     write_group_channel gaze_pos_3d b g tobii_data tobii_offset"

definition write_tobii_gyroscope :: "block \<Rightarrow> group \<Rightarrow> tobii_input \<Rightarrow> pyval \<Rightarrow> error + (block \<times> group)" where
  "write_tobii_gyroscope b g tobii_data tobii_offset =
     write_group_channel gyroscope b g tobii_data tobii_offset"

definition write_tobii_accelerometer :: "block \<Rightarrow> group \<Rightarrow> tobii_input \<Rightarrow> pyval \<Rightarrow> error + (block \<times> group)" where
  "write_tobii_accelerometer b g tobii_data tobii_offset =
     write_group_channel accelerometer b g tobii_data tobii_offset"

definition write_tobii_pipe_ts :: "block \<Rightarrow> group \<Rightarrow> tobii_input \<Rightarrow> pyval \<Rightarrow> error + (block \<times> group)" where
  "write_tobii_pipe_ts b g tobii_data tobii_offset =
     write_group_channel pipe_ts b g tobii_data tobii_offset"

definition write_tobii_video_ts :: "block \<Rightarrow> group \<Rightarrow> tobii_input \<Rightarrow> pyval \<Rightarrow> error + (block \<times> group)" where
  "write_tobii_video_ts b g tobii_data tobii_offset =
     write_group_channel video_ts b g tobii_data tobii_offset"

definition write_tobii_eye_video_ts :: "block \<Rightarrow> group \<Rightarrow> tobii_input \<Rightarrow> pyval \<Rightarrow> error + (block \<times> group)" where
  "write_tobii_eye_video_ts b g tobii_data tobii_offset =
     write_group_channel eye_video_ts b g tobii_data tobii_offset"

definition write_tobii_sync_port :: "block \<Rightarrow> group \<Rightarrow> tobii_input \<Rightarrow> pyval \<Rightarrow> error + (block \<times> group)" where
  "write_tobii_sync_port b g tobii_data tobii_offset =
     write_group_channel sync_port b g tobii_data tobii_offset"

section \<open>write\_tobii\_data\<close>

definition write_tobii_data :: "block \<Rightarrow> tobii_input \<Rightarrow> pyval \<Rightarrow> error + (block \<times> group)" where
  "write_tobii_data b tobii_data tobii_offset =
     (let group = create_group ''tobii data'' ''nix.tobii'' in
      bind_err (write_tobii_pupil_center b tobii_data tobii_offset ''left'') (\<lambda>(b, da_left).
      let group = append_to_group group (da_name da_left) in
      bind_err (write_tobii_pupil_center b tobii_data tobii_offset ''right'') (\<lambda>(b, da_right).
      let group = append_to_group group (da_name da_right) in
      bind_err (write_tobii_pupil_diameter b tobii_data tobii_offset ''left'') (\<lambda>(b, da_left).
      let group = append_to_group group (da_name da_left) in
      bind_err (write_tobii_pupil_diameter b tobii_data tobii_offset ''right'') (\<lambda>(b, da_right).
      let group = append_to_group group (da_name da_right) in
      bind_err (write_tobii_gaze_dir b tobii_data tobii_offset ''left'') (\<lambda>(b, da_left).
      let group = append_to_group group (da_name da_left) in
      bind_err (write_tobii_gaze_dir b tobii_data tobii_offset ''right'') (\<lambda>(b, da_right).
      let group = append_to_group group (da_name da_right) in
      bind_err (write_tobii_gaze_pos b group tobii_data tobii_offset) (\<lambda>(b, group).
      bind_err (write_tobii_gaze_pos_3d b group tobii_data tobii_offset) (\<lambda>(b, group).
      bind_err (write_tobii_gyroscope b group tobii_data tobii_offset) (\<lambda>(b, group).
      bind_err (write_tobii_accelerometer b group tobii_data tobii_offset) (\<lambda>(b, group).
      bind_err (write_tobii_pipe_ts b group tobii_data tobii_offset) (\<lambda>(b, group).
      bind_err (write_tobii_video_ts b group tobii_data tobii_offset) (\<lambda>(b, group).
      bind_err (write_tobii_eye_video_ts b group tobii_data tobii_offset) (\<lambda>(b, group).
      bind_err (write_tobii_sync_port b group tobii_data tobii_offset) (\<lambda>(b, group).
      Inr (b, group))))))))))))))))"

section \<open>convert and main\<close>

text \<open>
  \<open>convert\<close> opens the file, creates the block and writes the session metadata (left out,
  see above), then builds the arrays, tags and groups. Its result here is what the file
  holds when it is closed: the block and the two groups.
\<close>

definition empty_block :: block where
  "empty_block = \<lparr>data_arrays = [], multi_tags = [], tags = [], printed = []\<rparr>"

definition convert :: "real list \<Rightarrow> real list \<Rightarrow> real list list \<Rightarrow> real \<Rightarrow> tobii_input \<Rightarrow> pyval \<Rightarrow> pyval \<Rightarrow>
    error + (block \<times> group \<times> group)" where
  "convert time trigger data sr tobii_data eeg_offset tobii_offset =
     (let (b, group_eeg) = write_channel_data empty_block data time sr eeg_offset in
      bind_err (write_trigger_signal b trigger time group_eeg eeg_offset) (\<lambda>b.
      bind_err (write_tobii_data b tobii_data tobii_offset) (\<lambda>(b, group_tobii).
      Inr (save_events b trigger group_eeg group_tobii, group_eeg, group_tobii))))"





section \<open>Properties of determine\_offsets\<close>

lemma length_np_diff: "length (np_diff xs) = length xs - 1"
  by (induction xs rule: np_diff.induct) auto

lemma nth_np_diff: "i + 1 < length xs \<Longrightarrow> np_diff xs ! i = xs ! (i + 1) - xs ! i"
proof (induction xs arbitrary: i rule: np_diff.induct)
  case (1 x y zs)
  then show ?case by (cases i) auto
qed auto

lemma sorted_wrt_less_nth_take:
  assumes "sorted_wrt (<) (w :: nat list)" "k < length w"
  shows "{x \<in> set w. x < w ! k} = set (take k w)"
proof -
  have "\<And>x. x \<in> set w \<and> x < w ! k \<longleftrightarrow> x \<in> set (take k w)"
  proof -
    fix x
    show "x \<in> set w \<and> x < w ! k \<longleftrightarrow> x \<in> set (take k w)"
    proof
      assume a: "x \<in> set w \<and> x < w ! k"
      then obtain j where j: "j < length w" "w ! j = x" by (auto simp: in_set_conv_nth)
      have "j < k"
      proof (rule ccontr)
        assume "\<not> j < k"
        then have "k \<le> j" by simp
        then have "w ! k \<le> w ! j"
          using assms(1) j(1) by (cases "k = j") (auto simp: sorted_wrt_iff_nth_less less_imp_le)
        with a j show False by simp
      qed
      then show "x \<in> set (take k w)" using j assms(2) by (auto simp: in_set_conv_nth)
    next
      assume "x \<in> set (take k w)"
      then obtain j where j: "j < k" "j < length w" "w ! j = x"
        by (auto simp: in_set_conv_nth)
      then show "x \<in> set w \<and> x < w ! k"
        using assms by (auto simp: sorted_wrt_iff_nth_less)
    qed
  qed
  then show ?thesis by blast
qed

lemma filter_upt_sorted: "sorted_wrt (<) (filter P [0..<n])"
  by (simp add: sorted_wrt_filter strict_sorted_iff[symmetric]) 

lemma nth_filter_upt:
  assumes "k < length (filter P [0..<n])"
  shows "filter P [0..<n] ! k < n \<and> P (filter P [0..<n] ! k) \<and>
         card {j. j < filter P [0..<n] ! k \<and> P j} = k"
proof -
  let ?w = "filter P [0..<n]"
  have mem: "?w ! k \<in> set ?w" using assms by (rule nth_mem)
  have 1: "?w ! k < n" "P (?w ! k)" using mem by auto
  have "{j. j < ?w ! k \<and> P j} = {x \<in> set ?w. x < ?w ! k}" using 1 by auto
  also have "\<dots> = set (take k ?w)"
    by (rule sorted_wrt_less_nth_take[OF filter_upt_sorted assms])
  finally have "card {j. j < ?w ! k \<and> P j} = card (set (take k ?w))" by simp
  also have "\<dots> = length (take k ?w)"
    by (rule distinct_card) (simp add: distinct_take)
  also have "\<dots> = k" using assms by simp
  finally show ?thesis using 1 by simp
qed


lemma length_filter_upt_nth:
  assumes "k < length (filter P [0..<n])"
  shows "length (filter P [0..<filter P [0..<n] ! k]) = k"
proof -
  let ?i = "filter P [0..<n] ! k"
  have "length (filter P [0..<?i]) = card (set (filter P [0..<?i]))"
    by (rule distinct_card[symmetric]) simp
  also have "set (filter P [0..<?i]) = {j. j < ?i \<and> P j}" by auto
  finally show ?thesis using nth_filter_upt[OF assms] by simp
qed

lemma np_where_trigger_on_erg:
  "np_where (trigger_on_erg trigger) =
     filter (\<lambda>i. 1 < trigger ! (i + 1) - trigger ! i \<and> trigger ! (i + 1) - trigger ! i < 5)
       [0..<length trigger - 1]"
  unfolding np_where_def trigger_on_erg_def
  by (rule filter_cong) (auto simp: length_np_diff nth_np_diff)

text \<open>
  Claim C1, as amended. Line 180 keeps the rising steps only: a transition counts when the
  signed difference \<open>trigger[i+1] - trigger[i]\<close> lies strictly between 1 and 5. When the
  trigger has at least four such transitions and \<open>time\<close> is as long as \<open>trigger\<close>, the
  primary offset computed on line 182 is \<open>time[i]\<close>, where \<open>i\<close> is the position of the
  fourth of them: a transition of that kind with exactly three earlier ones.
\<close>

theorem determine_offsets_primary_offset:
  assumes "length time = length trigger"
    and "4 \<le> length (filter (\<lambda>j. 1 < trigger ! (j + 1) - trigger ! j \<and>
                                trigger ! (j + 1) - trigger ! j < 5) [0..<length trigger - 1])"
  shows "\<exists>i. i + 1 < length trigger \<and>
             1 < trigger ! (i + 1) - trigger ! i \<and> trigger ! (i + 1) - trigger ! i < 5 \<and>
             length (filter (\<lambda>j. 1 < trigger ! (j + 1) - trigger ! j \<and>
                                trigger ! (j + 1) - trigger ! j < 5) [0..<i]) = 3 \<and>
             sync_trigger_eeg time trigger = Inr (time ! i)"
proof -
  let ?P = "\<lambda>j. 1 < trigger ! (j + 1) - trigger ! j \<and> trigger ! (j + 1) - trigger ! j < 5"
  let ?w = "filter ?P [0..<length trigger - 1]"
  have k: "3 < length ?w" using assms(2) by simp
  have a: "?w ! 3 < length trigger - 1" "?P (?w ! 3)"
    using nth_filter_upt[OF k] by blast+
  have b: "length (filter ?P [0..<?w ! 3]) = 3" by (rule length_filter_upt_nth[OF k])
  have c: "sync_trigger_eeg time trigger = Inr (time ! (?w ! 3))"
    using k a(1) assms(1) by (simp add: sync_trigger_eeg_def np_where_trigger_on_erg index_def)
  from a b c show ?thesis by (intro exI[of _ "?w ! 3"]) auto
qed

text \<open>An instance: four rising steps of 2, 2, 3 and 4 among falling ones.\<close>

theorem determine_offsets_primary_offset_witness:
  "\<exists>i. i + 1 < length [0, 2, 2, 4, 0, 3, 0, 4 :: real] \<and>
       length (filter (\<lambda>j. 1 < [0, 2, 2, 4, 0, 3, 0, 4 :: real] ! (j + 1) - [0, 2, 2, 4, 0, 3, 0, 4] ! j \<and>
                 [0, 2, 2, 4, 0, 3, 0, 4 :: real] ! (j + 1) - [0, 2, 2, 4, 0, 3, 0, 4] ! j < 5) [0..<i]) = 3 \<and>
       sync_trigger_eeg [10, 11, 12, 13, 14, 15, 16, 17] [0, 2, 2, 4, 0, 3, 0, 4] = Inr ([10, 11, 12, 13, 14, 15, 16, 17] ! i)"
proof -
  let ?time = "[10, 11, 12, 13, 14, 15, 16, 17 :: real]"
  let ?trigger = "[0, 2, 2, 4, 0, 3, 0, 4 :: real]"
  have h1: "length ?time = length ?trigger" by simp
  have h2: "4 \<le> length (filter (\<lambda>j. 1 < ?trigger ! (j + 1) - ?trigger ! j \<and>
                ?trigger ! (j + 1) - ?trigger ! j < 5) [0..<length ?trigger - 1])"
    by (simp add: upt_rec)
  show ?thesis using determine_offsets_primary_offset[OF h1 h2] by blast
qed

text \<open>
  Claim C1 as stated fails: in the trigger below every step has magnitude 3, so the fourth
  sync-class edge by magnitude is at position 3 (time 3), while line 182 yields time 6,
  the fourth rising step.
\<close>

theorem determine_offsets_magnitude_counterexample:
  "4 \<le> length (spec_sync_class_edges [0, 3, 0, 3, 0, 3, 0, 3, 0]) \<and>
   [0, 1, 2, 3, 4, 5, 6, 7, 8 :: real] ! (spec_sync_class_edges [0, 3, 0, 3, 0, 3, 0, 3, 0] ! 3) = 3 \<and>
   sync_trigger_eeg [0, 1, 2, 3, 4, 5, 6, 7, 8] [0, 3, 0, 3, 0, 3, 0, 3, 0] = Inr 6"
  by (simp add: spec_sync_class_edges_def sync_trigger_eeg_def np_where_def trigger_on_erg_def index_def upt_rec)

text \<open>
  Claim C2. With four rising steps in the trigger and a first outgoing record stamped 5,
  the claim asks for the secondary offset \<open>5 + 10*10^6\<close>; line 184 adds the constant to
  the record itself and raises \<open>TypeError\<close>.
\<close>

theorem determine_offsets_secondary_offset_raises:
  "determine_offsets [0, 1, 2, 3, 4, 5, 6, 7] [0, 2, 0, 2, 0, 2, 0, 2]
     (TobiiRecords [[''ts'' \<mapsto> PNum 5, ''dir'' \<mapsto> PStr ''out'', ''sig'' \<mapsto> PNum 1, ''s'' \<mapsto> PNum 0]])
   = Inl TypeError"
  by (simp add: determine_offsets_def sync_trigger_tobii_def filter_contains_def
      sync_trigger_eeg_def np_where_def trigger_on_erg_def index_def dict_add_def upt_rec)

section \<open>Properties of save\_events\<close>

lemma np_select_map:
  "np_select (map f xs) (map (\<lambda>x. P (g x)) xs) = map f (filter (\<lambda>x. P (g x)) xs)"
  unfolding np_select_def by (induction xs) auto

lemma indices_eq:
  "indices trigger = filter (\<lambda>i. trigger ! (i + 1) \<noteq> trigger ! i) [0..<length trigger - 1]"
  unfolding indices_def np_nonzero_def
  by (rule filter_cong) (auto simp: length_np_diff nth_np_diff)

lemma corners_eq:
  "corners trigger =
     map (\<lambda>i. real i / 512)
       (filter (\<lambda>i. trigger ! (i + 1) \<noteq> trigger ! i \<and> (trigger ! i = 8 \<or> trigger ! i = 10))
          [0..<length trigger - 1])"
proof -
  have "corners trigger =
      map (\<lambda>i. real i / 512) (filter (\<lambda>i. trigger ! i = 8 \<or> trigger ! i = 10) (indices trigger))"
    unfolding corners_def times_def states_def
    using np_select_map[of "\<lambda>i. real i / 512" "indices trigger" "\<lambda>s. s = 8 \<or> s = 10" "\<lambda>i. trigger ! i"]
    by (simp add: comp_def)
  then show ?thesis by (simp add: indices_eq conj_commute)
qed

lemma exp_start_eq:
  "exp_start trigger =
     map (\<lambda>i. real i / 512)
       (filter (\<lambda>i. trigger ! (i + 1) \<noteq> trigger ! i \<and> (trigger ! i = 4 \<or> trigger ! i = 6))
          [0..<length trigger - 1])"
proof -
  have "exp_start trigger =
      map (\<lambda>i. real i / 512) (filter (\<lambda>i. trigger ! i = 4 \<or> trigger ! i = 6) (indices trigger))"
    unfolding exp_start_def times_def states_def
    using np_select_map[of "\<lambda>i. real i / 512" "indices trigger" "\<lambda>s. s = 4 \<or> s = 6" "\<lambda>i. trigger ! i"]
    by (simp add: comp_def)
  then show ?thesis by (simp add: indices_eq conj_commute)
qed

lemma apply_multi_tags_fold:
  "fold (\<lambda>da (b, exp_starts, corner_events).
             (print Stdout (line @ quoted da) b,
              exp_starts\<lparr>mt_references := mt_references exp_starts @ [da]\<rparr>,
              corner_events\<lparr>mt_references := mt_references corner_events @ [da]\<rparr>)) das (b, e, c)
   = (b\<lparr>printed := printed b @ map (\<lambda>da. (Stdout, line @ quoted da)) das\<rparr>,
      e\<lparr>mt_references := mt_references e @ das\<rparr>,
      c\<lparr>mt_references := mt_references c @ das\<rparr>)"
  by (induction das arbitrary: b e c) (auto simp: print_def)

lemma apply_multi_tags_eq:
  "apply_multi_tags line g (b, e, c) =
     (b\<lparr>printed := printed b @ map (\<lambda>da. (Stdout, line @ quoted da)) (g_data_arrays g)\<rparr>,
      e\<lparr>mt_references := mt_references e @ g_data_arrays g\<rparr>,
      c\<lparr>mt_references := mt_references c @ g_data_arrays g\<rparr>)"
  unfolding apply_multi_tags_def by (rule apply_multi_tags_fold)

lemma save_events_data_arrays:
  "data_arrays (save_events b trigger group_eeg group_tobii) =
     data_arrays b @
       [timestamps_array ''corner_times'' ''nix.timestamps'' (corners trigger),
        timestamps_array ''experiment times'' ''nix.timestamps'' (exp_start trigger),
        timestamps_array ''experiment durations'' ''nix.extents'' (extents trigger)]"
  by (simp add: save_events_def Let_def apply_multi_tags_eq create_data_array_def
      create_multi_tag_def print_def)

lemma save_events_multi_tags:
  "multi_tags (save_events b trigger group_eeg group_tobii) =
     multi_tags b @
       [\<lparr>mt_name = ''corners'', mt_type = ''nix.eeg.event'', mt_positions = ''corner_times'',
         mt_extents = None,
         mt_references = g_data_arrays group_eeg @ g_data_arrays group_tobii\<rparr>,
        \<lparr>mt_name = ''experiment starts'', mt_type = ''nix.eeg.event'',
         mt_positions = ''experiment times'', mt_extents = Some ''experiment durations'',
         mt_references = g_data_arrays group_eeg @ g_data_arrays group_tobii\<rparr>]"
  by (simp add: save_events_def Let_def apply_multi_tags_eq create_data_array_def
      create_multi_tag_def print_def)

lemma extents_one: "length (exp_start trigger) = 1 \<Longrightarrow> extents trigger = [100]"
  by (simp add: extents_def)

lemma replicate_update_last:
  assumes "n > 0"
  shows "(replicate n x)[n - 1 := y] = replicate (n - 1) x @ [y]"
proof -
  obtain m where n: "n = Suc m" using assms by (cases n) auto
  have "replicate (Suc m) x = replicate m x @ [x]" by (simp add: replicate_append_same)
  moreover have "(replicate m x @ [x])[m := y] = replicate m x @ [y]"
    using list_update_length[of "replicate m x" x "[]" y] by simp
  ultimately show ?thesis using n by simp
qed

lemma extents_many:
  assumes "length (exp_start trigger) > 1"
  shows "extents trigger = replicate (length (exp_start trigger) - 1) 1 @ [100]"
proof -
  have pos: "length (exp_start trigger) > 0"
    using assms by (cases "exp_start trigger") auto
  have "extents trigger =
      (replicate (length (exp_start trigger)) 1)[length (exp_start trigger) - 1 := 100]"
    using assms by (simp add: extents_def)
  then show ?thesis by (simp only: replicate_update_last[OF pos])
qed

text \<open>
  Claim C4, as amended. The transition indices are the positions \<open>i\<close> where
  \<open>trigger[i+1]\<close> differs from \<open>trigger[i]\<close>. Each is given the instant \<open>i / 512\<close>
  (the literal of line 110; \<open>save_events\<close> is not passed the sampling rate) and is
  classified by \<open>trigger[i]\<close>, the level of the last sample before the change: 8 or 10
  gives a corner marker, 4 or 6 an experiment-start marker. These are the positions stored
  in the arrays \<open>corner_times\<close> and \<open>experiment times\<close>.
\<close>

theorem save_events_markers:
  "indices trigger = filter (\<lambda>i. trigger ! (i + 1) \<noteq> trigger ! i) [0..<length trigger - 1] \<and>
   corners trigger =
     map (\<lambda>i. real i / 512)
       (filter (\<lambda>i. trigger ! (i + 1) \<noteq> trigger ! i \<and> (trigger ! i = 8 \<or> trigger ! i = 10))
          [0..<length trigger - 1]) \<and>
   exp_start trigger =
     map (\<lambda>i. real i / 512)
       (filter (\<lambda>i. trigger ! (i + 1) \<noteq> trigger ! i \<and> (trigger ! i = 4 \<or> trigger ! i = 6))
          [0..<length trigger - 1]) \<and>
   data_arrays (save_events b trigger group_eeg group_tobii) =
     data_arrays b @
       [timestamps_array ''corner_times'' ''nix.timestamps'' (corners trigger),
        timestamps_array ''experiment times'' ''nix.timestamps'' (exp_start trigger),
        timestamps_array ''experiment durations'' ''nix.extents'' (extents trigger)]"
  using indices_eq corners_eq exp_start_eq save_events_data_arrays by blast

text \<open>The trigger of the specification's example.\<close>

theorem save_events_markers_witness:
  "corners [0, 0, 8, 8, 0, 0, 4, 4, 0] = [3 / 512] \<and> exp_start [0, 0, 8, 8, 0, 0, 4, 4, 0] = [7 / 512]"
  using save_events_markers[of "[0, 0, 8, 8, 0, 0, 4, 4, 0]" empty_block "create_group [] []" "create_group [] []"]
  by (simp add: upt_rec)

text \<open>
  Claim C4 as stated fails. In \<open>[0,0,8,8,0,0,4,4,0]\<close> the level after a transition is 8
  at position 1 and 4 at position 5; lines 108 to 112 mark positions 3 and 7 instead,
  where the level before the transition is 8 and 4. In \<open>[10,8,10]\<close> both readings mark
  the same positions, and with a sampling rate of 256 the instants differ, \<open>1/512\<close>
  against \<open>1/256\<close>.
\<close>

theorem save_events_post_level_counterexample:
  "corners [0, 0, 8, 8, 0, 0, 4, 4, 0] = [3 / 512] \<and>
   spec_markers {8, 10} 512 [0, 0, 8, 8, 0, 0, 4, 4, 0] = [1 / 512] \<and>
   exp_start [0, 0, 8, 8, 0, 0, 4, 4, 0] = [7 / 512] \<and>
   spec_markers {4, 6} 512 [0, 0, 8, 8, 0, 0, 4, 4, 0] = [5 / 512] \<and>
   corners [10, 8, 10] = [0, 1 / 512] \<and>
   spec_markers {8, 10} 256 [10, 8, 10] = [0, 1 / 256]"
  by (simp add: corners_eq exp_start_eq spec_markers_def upt_rec)

text \<open>
  Claim C5. The extents of the experiment-start regions are the data of the array
  \<open>experiment durations\<close>, which the multi-tag \<open>experiment starts\<close> takes as its extents.
  With exactly one experiment-start marker they are the single value 100; with \<open>n > 1\<close>
  markers they are \<open>n - 1\<close> ones followed by 100.
\<close>

theorem save_events_extents:
  "da_name (last (data_arrays (save_events b trigger group_eeg group_tobii))) = ''experiment durations'' \<and>
   mt_name (last (multi_tags (save_events b trigger group_eeg group_tobii))) = ''experiment starts'' \<and>
   mt_extents (last (multi_tags (save_events b trigger group_eeg group_tobii))) = Some ''experiment durations'' \<and>
   (length (exp_start trigger) = 1 \<longrightarrow>
      da_data (last (data_arrays (save_events b trigger group_eeg group_tobii))) = Vector [100]) \<and>
   (length (exp_start trigger) > 1 \<longrightarrow>
      da_data (last (data_arrays (save_events b trigger group_eeg group_tobii))) =
        Vector (replicate (length (exp_start trigger) - 1) 1 @ [100]))"
  by (simp add: save_events_data_arrays save_events_multi_tags timestamps_array_def
      extents_one extents_many)

text \<open>Three markers, and one marker.\<close>

theorem save_events_extents_witness:
  "length (exp_start [0, 4, 0, 6, 0, 4, 0]) = 3 \<and>
   da_data (last (data_arrays (save_events empty_block [0, 4, 0, 6, 0, 4, 0]
      (create_group ''eeg data'' ''nix.eeg.channels'') (create_group ''tobii data'' ''nix.tobii'')))) = Vector [1, 1, 100] \<and>
   length (exp_start [0, 0, 8, 8, 0, 0, 4, 4, 0]) = 1 \<and>
   da_data (last (data_arrays (save_events empty_block [0, 0, 8, 8, 0, 0, 4, 4, 0]
      (create_group ''eeg data'' ''nix.eeg.channels'') (create_group ''tobii data'' ''nix.tobii'')))) = Vector [100]"
proof -
  have n3: "length (exp_start [0, 4, 0, 6, 0, 4, 0]) = 3" by (simp add: exp_start_eq upt_rec)
  have n1: "length (exp_start [0, 0, 8, 8, 0, 0, 4, 4, 0]) = 1" by (simp add: exp_start_eq upt_rec)
  show ?thesis
    using n3 n1
      save_events_extents[of empty_block "[0, 4, 0, 6, 0, 4, 0]"
        "create_group ''eeg data'' ''nix.eeg.channels''" "create_group ''tobii data'' ''nix.tobii''"]
      save_events_extents[of empty_block "[0, 0, 8, 8, 0, 0, 4, 4, 0]"
        "create_group ''eeg data'' ''nix.eeg.channels''" "create_group ''tobii data'' ''nix.tobii''"]
    by (simp add: numeral_3_eq_3)
qed

section \<open>Properties of write\_channel\_data\<close>



lemma fold_write_channel:
  "fold (write_channel data time sr offset) chs (b, g) =
     (b\<lparr>data_arrays := data_arrays b @ map (channel_array data time sr offset) chs\<rparr>,
      g\<lparr>g_data_arrays := g_data_arrays g @ map (\<lambda>ch. ''channel '' @ digits (ch + 1)) chs\<rparr>)"
  by (induction chs arbitrary: b g)
     (auto simp: write_channel_def create_data_array_def append_to_group_def channel_array_def Let_def)

lemma write_channel_data_eq:
  "write_channel_data b data time sr offset =
     (b\<lparr>data_arrays := data_arrays b @ map (channel_array data time sr offset) [0..<length data],
        printed := printed b @
          (if use_range time sr
           then [(Stderr, ''sampling rate does not match timestamps using range dimension (need more space!)'')]
           else [])\<rparr>,
      \<lparr>g_name = ''eeg data'', g_type = ''nix.eeg.channels'',
       g_data_arrays = map (\<lambda>ch. ''channel '' @ digits (ch + 1)) [0..<length data]\<rparr>)"
  by (simp add: write_channel_data_def Let_def fold_write_channel print_def create_group_def)



section \<open>Properties of the Tobii property channels\<close>


lemma filter_key_equals_total:
  "\<forall>y\<in>set xs. y k \<noteq> None \<Longrightarrow>
     filter_key_equals k s xs = Inr (filter (\<lambda>y. y k = Some (PStr s)) xs)"
  by (induction xs) (auto split: option.splits sum.splits)











text \<open>
  Claim C8, as amended. When the filtered record set of a property is empty the channel
  is built without an exception, whatever the offset: an array with zero samples, its
  label, no unit and no description, and no range dimension for the time; it does get one
  set dimension, which has no labels. A line saying that no data was found is printed, and
  the eight group functions leave the group as it was.
\<close>

theorem empty_property_channel:
  assumes "filtered c tobii_data = Inr []"
  shows "write_eye_channel c b tobii_data tobii_offset =
           Inr (print Stdout (''INFO/TOBII: no '' @ quoted (ch_prop c) @ '' data found'')
                  (create_data_array b
                    \<lparr>da_name = ch_name c, da_type = ''nix.tobii.property'', da_data = Table [],
                     da_label = Some (ch_label c), da_unit = None, da_description = None,
                     da_dimensions = [SetDimension []]\<rparr>),
                \<lparr>da_name = ch_name c, da_type = ''nix.tobii.property'', da_data = Table [],
                 da_label = Some (ch_label c), da_unit = None, da_description = None,
                 da_dimensions = [SetDimension []]\<rparr>) \<and>
         write_group_channel c b g tobii_data tobii_offset =
           Inr (print Stdout (''INFO/TOBII: no '' @ quoted (ch_prop c) @ '' data found'')
                  (create_data_array b
                    \<lparr>da_name = ch_name c, da_type = ''nix.tobii.property'', da_data = Table [],
                     da_label = Some (ch_label c), da_unit = None, da_description = None,
                     da_dimensions = [SetDimension []]\<rparr>),
                g)"
proof -
  have "samples c tobii_data tobii_offset = Inr ([], [])"
    by (simp add: samples_def bind_err_def assms sorted_by_ts_def)
  then show ?thesis
    by (simp add: write_eye_channel_def write_group_channel_def write_property_def
        property_array_def Let_def)
qed

text \<open>The sync port of a stream without \<open>dir\<close> records, the offset given as a string.\<close>

theorem empty_property_channel_witness:
  "write_tobii_sync_port empty_block (create_group ''tobii data'' ''nix.tobii'')
     (TobiiRecords [[''ts'' \<mapsto> PNum 7, ''s'' \<mapsto> PNum 0, ''pd'' \<mapsto> PNum 3, ''eye'' \<mapsto> PStr ''left'']])
     (PStr ''12'') =
   Inr (print Stdout (''INFO/TOBII: no '' @ quoted ''dir'' @ '' data found'')
          (create_data_array empty_block
             \<lparr>da_name = ''sync port'', da_type = ''nix.tobii.property'', da_data = Table [],
              da_label = Some ''sync port'', da_unit = None, da_description = None,
              da_dimensions = [SetDimension []]\<rparr>),
        create_group ''tobii data'' ''nix.tobii'')"
proof -
  have f: "filtered sync_port
      (TobiiRecords [[''ts'' \<mapsto> PNum 7, ''s'' \<mapsto> PNum 0, ''pd'' \<mapsto> PNum 3, ''eye'' \<mapsto> PStr ''left'']])
      = Inr []"
    by (simp add: filtered_def filter_contains_def sync_port_def)
  from empty_property_channel[OF f, of empty_block "PStr ''12''" "create_group ''tobii data'' ''nix.tobii''"]
  show ?thesis by (simp add: write_tobii_sync_port_def sync_port_def)
qed

text \<open>
  Claim C8 as stated fails: on an empty stream the arrays built by
  \<open>write_tobii_pupil_diameter\<close> and \<open>write_tobii_sync_port\<close> do not come without
  dimensions; each has a set dimension with an empty list of labels.
\<close>

theorem empty_property_channel_dimension_counterexample:
  "map_sum id (da_dimensions \<circ> snd)
     (write_tobii_pupil_diameter empty_block (TobiiRecords []) (PNum 0) ''left'') =
     Inr [SetDimension []] \<and>
   map_sum id (map da_dimensions \<circ> data_arrays \<circ> fst)
     (write_tobii_sync_port empty_block (create_group ''tobii data'' ''nix.tobii'') (TobiiRecords []) (PNum 0)) =
     Inr [[SetDimension []]]"
  by (simp add: write_tobii_pupil_diameter_def write_tobii_sync_port_def write_eye_channel_def
      write_group_channel_def samples_def bind_err_def filtered_def filter_contains_def
      sorted_by_ts_def pupil_diameter_def sync_port_def property_array_def write_property_def
      create_data_array_def print_def empty_block_def Let_def)

section \<open>Properties of the assembled container\<close>

lemma bind_err_Inr_iff: "bind_err m f = Inr y \<longleftrightarrow> (\<exists>x. m = Inr x \<and> f x = Inr y)"
  by (cases m) (auto simp: bind_err_def)

lemma collect_length:
  "collect row off es = Inr (ts, combined) \<Longrightarrow> length combined = length es"
  by (induction es arbitrary: ts combined) (auto split: sum.splits prod.splits)

lemma sorted_by_ts_length: "sorted_by_ts rs = Inr srt \<Longrightarrow> length srt = length rs"
  by (auto simp: sorted_by_ts_def split: if_splits)

lemma samples_length:
  assumes "samples c td off = Inr (ts, combined)"
  shows "\<exists>rs. filtered c td = Inr rs \<and> length combined = length rs"
proof -
  from assms obtain rs srt where "filtered c td = Inr rs" "sorted_by_ts rs = Inr srt"
    "collect (ch_row c) off srt = Inr (ts, combined)"
    by (auto simp: samples_def bind_err_Inr_iff)
  then show ?thesis using collect_length sorted_by_ts_length by fastforce
qed

lemma property_array_name: "da_name (property_array c off ts combined) = ch_name c"
  by (simp add: property_array_def)

lemma write_property_frame:
  "multi_tags (write_property c b off ts combined) = multi_tags b \<and>
   tags (write_property c b off ts combined) = tags b \<and>
   map da_name (data_arrays (write_property c b off ts combined)) =
     map da_name (data_arrays b) @ [ch_name c]"
  by (simp add: write_property_def Let_def create_data_array_def print_def property_array_name)

lemma write_eye_channel_Inr:
  assumes "write_eye_channel c b td off = Inr (b', da)"
  shows "da_name da = ch_name c \<and> multi_tags b' = multi_tags b \<and>
         map da_name (data_arrays b') = map da_name (data_arrays b) @ [ch_name c]"
  using assms write_property_frame[of c b off]
  by (auto simp: write_eye_channel_def property_array_name split: sum.splits prod.splits)

lemma write_group_channel_Inr:
  assumes "write_group_channel c b g (TobiiRecords recs) off = Inr (b', g')" and "ch_eye c = None"
  shows "g_data_arrays g' = g_data_arrays g @
            (if filter (\<lambda>e. e (ch_prop c) \<noteq> None) recs = [] then [] else [ch_name c]) \<and>
         multi_tags b' = multi_tags b \<and>
         map da_name (data_arrays b') = map da_name (data_arrays b) @ [ch_name c]"
proof -
  from assms(1) obtain ts combined where s: "samples c (TobiiRecords recs) off = Inr (ts, combined)"
    and b': "b' = write_property c b off ts combined"
    and g': "g' = (if length combined < 1 then g else append_to_group g (ch_name c))"
    by (auto simp: write_group_channel_def split: sum.splits prod.splits)
  from samples_length[OF s] assms(2)
  have "length combined = length (filter (\<lambda>e. e (ch_prop c) \<noteq> None) recs)"
    by (auto simp: filtered_def filter_contains_def)
  then show ?thesis using b' g' write_property_frame[of c b off ts combined]
    by (auto simp: append_to_group_def)
qed


lemma write_group_channel_frame:
  assumes "write_group_channel c b g td off = Inr (b', g')"
  shows "multi_tags b' = multi_tags b"
  using assms write_property_frame[of c b off]
  by (auto simp: write_group_channel_def split: sum.splits prod.splits)

lemmas write_tobii_defs =
  write_tobii_pupil_center_def write_tobii_pupil_diameter_def write_tobii_gaze_dir_def
  write_tobii_gaze_pos_def write_tobii_gaze_pos_3d_def write_tobii_gyroscope_def
  write_tobii_accelerometer_def write_tobii_pipe_ts_def write_tobii_video_ts_def
  write_tobii_eye_video_ts_def write_tobii_sync_port_def

lemmas channel_defs =
  pupil_center_def pupil_diameter_def gaze_dir_def gaze_pos_def gaze_pos_3d_def gyroscope_def
  accelerometer_def pipe_ts_def video_ts_def eye_video_ts_def sync_port_def

lemma write_tobii_data_multi_tags:
  assumes "write_tobii_data b td off = Inr (b', g)"
  shows "multi_tags b' = multi_tags b"
  using assms
  by (auto simp: write_tobii_data_def Let_def bind_err_Inr_iff write_tobii_defs
      dest!: write_eye_channel_Inr write_group_channel_frame)

lemma write_tobii_data_Inr:
  assumes "write_tobii_data b (TobiiRecords recs) off = Inr (b', g)"
  shows "g_data_arrays g =
           [''pupil center left'', ''pupil center right'', ''pupil diameter left'',
            ''pupil diameter right'', ''gaze direction left'', ''gaze direction right''] @
           concat (map (\<lambda>c. if filter (\<lambda>e. e (ch_prop c) \<noteq> None) recs = [] then [] else [ch_name c])
             [gaze_pos, gaze_pos_3d, gyroscope, accelerometer, pipe_ts, video_ts, eye_video_ts, sync_port]) \<and>
         map da_name (data_arrays b') = map da_name (data_arrays b) @
           [''pupil center left'', ''pupil center right'', ''pupil diameter left'',
            ''pupil diameter right'', ''gaze direction left'', ''gaze direction right'',
            ''gaze position'', ''gaze position 3D'', ''MEMS gyroscope'', ''MEMS accelerometer'',
            ''pipeline timestamp'', ''video timestamp'', ''evts'', ''sync port'']"
proof -
  have eye: "ch_eye gaze_pos = None" "ch_eye gaze_pos_3d = None" "ch_eye gyroscope = None"
    "ch_eye accelerometer = None" "ch_eye pipe_ts = None" "ch_eye video_ts = None"
    "ch_eye eye_video_ts = None" "ch_eye sync_port = None"
    by (simp_all add: channel_defs)
  have names: "ch_name (pupil_center ''left'') = ''pupil center left''"
    "ch_name (pupil_center ''right'') = ''pupil center right''"
    "ch_name (pupil_diameter ''left'') = ''pupil diameter left''"
    "ch_name (pupil_diameter ''right'') = ''pupil diameter right''"
    "ch_name (gaze_dir ''left'') = ''gaze direction left''"
    "ch_name (gaze_dir ''right'') = ''gaze direction right''"
    "ch_name gaze_pos = ''gaze position''" "ch_name gaze_pos_3d = ''gaze position 3D''"
    "ch_name gyroscope = ''MEMS gyroscope''" "ch_name accelerometer = ''MEMS accelerometer''"
    "ch_name pipe_ts = ''pipeline timestamp''" "ch_name video_ts = ''video timestamp''"
    "ch_name eye_video_ts = ''evts''" "ch_name sync_port = ''sync port''"
    by (simp_all add: channel_defs)
  from assms obtain b1 d1 b2 d2 b3 d3 b4 d4 b5 d5 b6 d6 b7 g7 b8 g8 b9 g9 b10 g10 b11 g11 b12 g12 b13 g13
    where
      1: "write_eye_channel (pupil_center ''left'') b (TobiiRecords recs) off = Inr (b1, d1)" and
      2: "write_eye_channel (pupil_center ''right'') b1 (TobiiRecords recs) off = Inr (b2, d2)" and
      3: "write_eye_channel (pupil_diameter ''left'') b2 (TobiiRecords recs) off = Inr (b3, d3)" and
      4: "write_eye_channel (pupil_diameter ''right'') b3 (TobiiRecords recs) off = Inr (b4, d4)" and
      5: "write_eye_channel (gaze_dir ''left'') b4 (TobiiRecords recs) off = Inr (b5, d5)" and
      6: "write_eye_channel (gaze_dir ''right'') b5 (TobiiRecords recs) off = Inr (b6, d6)" and
      7: "write_group_channel gaze_pos b6
            \<lparr>g_name = ''tobii data'', g_type = ''nix.tobii'',
             g_data_arrays = [da_name d1, da_name d2, da_name d3, da_name d4, da_name d5, da_name d6]\<rparr>
            (TobiiRecords recs) off = Inr (b7, g7)" and
      8: "write_group_channel gaze_pos_3d b7 g7 (TobiiRecords recs) off = Inr (b8, g8)" and
      9: "write_group_channel gyroscope b8 g8 (TobiiRecords recs) off = Inr (b9, g9)" and
      10: "write_group_channel accelerometer b9 g9 (TobiiRecords recs) off = Inr (b10, g10)" and
      11: "write_group_channel pipe_ts b10 g10 (TobiiRecords recs) off = Inr (b11, g11)" and
      12: "write_group_channel video_ts b11 g11 (TobiiRecords recs) off = Inr (b12, g12)" and
      13: "write_group_channel eye_video_ts b12 g12 (TobiiRecords recs) off = Inr (b13, g13)" and
      14: "write_group_channel sync_port b13 g13 (TobiiRecords recs) off = Inr (b', g)"
    by (auto simp: write_tobii_data_def Let_def bind_err_Inr_iff write_tobii_defs
        create_group_def append_to_group_def)
  note e = write_eye_channel_Inr[OF 1] write_eye_channel_Inr[OF 2] write_eye_channel_Inr[OF 3]
    write_eye_channel_Inr[OF 4] write_eye_channel_Inr[OF 5] write_eye_channel_Inr[OF 6]
  note g = write_group_channel_Inr[OF 7 eye(1)] write_group_channel_Inr[OF 8 eye(2)]
    write_group_channel_Inr[OF 9 eye(3)] write_group_channel_Inr[OF 10 eye(4)]
    write_group_channel_Inr[OF 11 eye(5)] write_group_channel_Inr[OF 12 eye(6)]
    write_group_channel_Inr[OF 13 eye(7)] write_group_channel_Inr[OF 14 eye(8)]
  have G: "g_data_arrays g =
           [''pupil center left'', ''pupil center right'', ''pupil diameter left'',
            ''pupil diameter right'', ''gaze direction left'', ''gaze direction right''] @
           concat (map (\<lambda>c. if filter (\<lambda>e. e (ch_prop c) \<noteq> None) recs = [] then [] else [ch_name c])
             [gaze_pos, gaze_pos_3d, gyroscope, accelerometer, pipe_ts, video_ts, eye_video_ts, sync_port])"
    using e g by (simp add: names)
  have D: "map da_name (data_arrays b') = map da_name (data_arrays b) @
           [''pupil center left'', ''pupil center right'', ''pupil diameter left'',
            ''pupil diameter right'', ''gaze direction left'', ''gaze direction right'',
            ''gaze position'', ''gaze position 3D'', ''MEMS gyroscope'', ''MEMS accelerometer'',
            ''pipeline timestamp'', ''video timestamp'', ''evts'', ''sync port'']"
    using e g by (simp add: names)
  from G D show ?thesis by blast
qed


lemma write_trigger_signal_Inr:
  assumes "write_trigger_signal b trigger time g off = Inr b'"
  shows "multi_tags b' = multi_tags b \<and>
         map da_name (data_arrays b') = map da_name (data_arrays b) @ [''trigger signal'']"
  using assms
  by (auto simp: write_trigger_signal_def Let_def create_data_array_def create_tag_def
      split: sum.splits)

lemma convert_Inr:
  assumes "convert time trigger data sr td eo to = Inr (b, ge, gt)"
  shows "\<exists>b1 b2 b3. write_channel_data empty_block data time sr eo = (b1, ge) \<and>
           write_trigger_signal b1 trigger time ge eo = Inr b2 \<and>
           write_tobii_data b2 td to = Inr (b3, gt) \<and>
           b = save_events b3 trigger ge gt"
  using assms
  by (auto simp: convert_def Let_def bind_err_Inr_iff split: prod.splits)

lemma convert_multi_tags:
  assumes "convert time trigger data sr td eo to = Inr (b, ge, gt)"
  shows "multi_tags b =
       [\<lparr>mt_name = ''corners'', mt_type = ''nix.eeg.event'', mt_positions = ''corner_times'',
         mt_extents = None, mt_references = g_data_arrays ge @ g_data_arrays gt\<rparr>,
        \<lparr>mt_name = ''experiment starts'', mt_type = ''nix.eeg.event'',
         mt_positions = ''experiment times'', mt_extents = Some ''experiment durations'',
         mt_references = g_data_arrays ge @ g_data_arrays gt\<rparr>]"
proof -
  from convert_Inr[OF assms] obtain b1 b2 b3 where
    1: "write_channel_data empty_block data time sr eo = (b1, ge)" and
    2: "write_trigger_signal b1 trigger time ge eo = Inr b2" and
    3: "write_tobii_data b2 td to = Inr (b3, gt)" and
    4: "b = save_events b3 trigger ge gt" by blast
  have "multi_tags b1 = []" using 1 by (auto simp: write_channel_data_eq empty_block_def)
  then have "multi_tags b3 = []"
    using write_trigger_signal_Inr[OF 2] write_tobii_data_multi_tags[OF 3] by simp
  then show ?thesis unfolding 4 by (simp add: save_events_multi_tags)
qed

lemma convert_group_eeg:
  assumes "convert time trigger data sr td eo to = Inr (b, ge, gt)"
  shows "g_data_arrays ge = map (\<lambda>ch. ''channel '' @ digits (ch + 1)) [0..<length data]"
  using convert_Inr[OF assms] by (auto simp: write_channel_data_eq)

text \<open>
  Claim C9. When \<open>convert\<close> completes, the block holds exactly two multi-tags, the corner
  regions and the experiment-start regions; the primary group holds the arrays
  \<open>channel 1\<close> to \<open>channel n\<close>, one per row of \<open>data\<close>; and each of the two multi-tags
  references every array of the primary group and every array of the secondary group.
\<close>

theorem convert_references:
  assumes "convert time trigger data sr tobii_data eeg_offset tobii_offset =
             Inr (b, group_eeg, group_tobii)"
  shows "map mt_name (multi_tags b) = [''corners'', ''experiment starts''] \<and>
         g_data_arrays group_eeg = map (\<lambda>ch. ''channel '' @ digits (ch + 1)) [0..<length data] \<and>
         (\<forall>mt\<in>set (multi_tags b).
            \<forall>a\<in>set (g_data_arrays group_eeg) \<union> set (g_data_arrays group_tobii).
              a \<in> set (mt_references mt))"
  using convert_multi_tags[OF assms] convert_group_eeg[OF assms] by auto

text \<open>
  A small conversion that completes: one channel of three samples, and a Tobii stream with
  one left pupil diameter and one gaze position.
\<close>

lemma convert_example:
  "\<exists>b ge gt. convert [0, 1, 2] [0, 8, 0] [[1, 2, 3]] 1
     (TobiiRecords [[''ts'' \<mapsto> PNum 7, ''s'' \<mapsto> PNum 0, ''pd'' \<mapsto> PNum 3, ''eye'' \<mapsto> PStr ''left''],
                    [''ts'' \<mapsto> PNum 5, ''s'' \<mapsto> PNum 0, ''gp'' \<mapsto> PList [PNum 1, PNum 2], ''l'' \<mapsto> PNum 9]])
     (PNum 0) (PNum 1) = Inr (b, ge, gt)"
proof -
  have "case convert [0, 1, 2] [0, 8, 0] [[1, 2, 3]] 1
     (TobiiRecords [[''ts'' \<mapsto> PNum 7, ''s'' \<mapsto> PNum 0, ''pd'' \<mapsto> PNum 3, ''eye'' \<mapsto> PStr ''left''],
                    [''ts'' \<mapsto> PNum 5, ''s'' \<mapsto> PNum 0, ''gp'' \<mapsto> PList [PNum 1, PNum 2], ''l'' \<mapsto> PNum 9]])
     (PNum 0) (PNum 1) of Inl e \<Rightarrow> False | Inr r \<Rightarrow> True"
    by (simp add: convert_def write_channel_data_eq write_trigger_signal_def last_sample_def
      write_tobii_data_def write_tobii_defs channel_defs write_eye_channel_def write_group_channel_def
      samples_def filtered_def filter_contains_def sorted_by_ts_def is_number_def ts_of_def
      lookup_def minus_offset.simps row_scalar_def row_vector_def row_gaze_pos_def row_pipe_ts_def
      row_sync_port_def bind_err_def Let_def create_group_def append_to_group_def
      index_def)
  then show ?thesis by (cases "convert [0, 1, 2] [0, 8, 0] [[1, 2, 3]] 1
     (TobiiRecords [[''ts'' \<mapsto> PNum 7, ''s'' \<mapsto> PNum 0, ''pd'' \<mapsto> PNum 3, ''eye'' \<mapsto> PStr ''left''],
                    [''ts'' \<mapsto> PNum 5, ''s'' \<mapsto> PNum 0, ''gp'' \<mapsto> PList [PNum 1, PNum 2], ''l'' \<mapsto> PNum 9]])
     (PNum 0) (PNum 1)") auto
qed

theorem convert_references_witness:
  "\<exists>b ge gt. convert [0, 1, 2] [0, 8, 0] [[1, 2, 3]] 1
     (TobiiRecords [[''ts'' \<mapsto> PNum 7, ''s'' \<mapsto> PNum 0, ''pd'' \<mapsto> PNum 3, ''eye'' \<mapsto> PStr ''left''],
                    [''ts'' \<mapsto> PNum 5, ''s'' \<mapsto> PNum 0, ''gp'' \<mapsto> PList [PNum 1, PNum 2], ''l'' \<mapsto> PNum 9]])
     (PNum 0) (PNum 1) = Inr (b, ge, gt) \<and>
     map mt_name (multi_tags b) = [''corners'', ''experiment starts''] \<and>
     g_data_arrays ge = [''channel 1''] \<and>
     list_all (\<lambda>mt. list_all (\<lambda>a. a \<in> set (mt_references mt)) (g_data_arrays ge @ g_data_arrays gt))
       (multi_tags b)"
proof -
  from convert_example obtain b ge gt where
    c: "convert [0, 1, 2] [0, 8, 0] [[1, 2, 3]] 1
     (TobiiRecords [[''ts'' \<mapsto> PNum 7, ''s'' \<mapsto> PNum 0, ''pd'' \<mapsto> PNum 3, ''eye'' \<mapsto> PStr ''left''],
                    [''ts'' \<mapsto> PNum 5, ''s'' \<mapsto> PNum 0, ''gp'' \<mapsto> PList [PNum 1, PNum 2], ''l'' \<mapsto> PNum 9]])
     (PNum 0) (PNum 1) = Inr (b, ge, gt)" by blast
  have d: "digits (Suc 0) = ''1''" by (simp add: digits.simps)
  from convert_references[OF c] have
    "map mt_name (multi_tags b) = [''corners'', ''experiment starts''] \<and>
     g_data_arrays ge = [''channel 1''] \<and>
     list_all (\<lambda>mt. list_all (\<lambda>a. a \<in> set (mt_references mt)) (g_data_arrays ge @ g_data_arrays gt))
       (multi_tags b)"
    by (simp add: list_all_iff d)
  with c show ?thesis
    by - (rule exI[of _ b], rule exI[of _ ge], rule exI[of _ gt], rule conjI)
qed

lemma mem_concat_if:
  "x \<in> set (concat (map (\<lambda>c. if P c then [] else [f c]) cs)) \<longleftrightarrow> (\<exists>c\<in>set cs. \<not> P c \<and> f c = x)"
  by (induction cs) auto

lemma group_channel_names:
  "\<forall>c\<in>set [gaze_pos, gaze_pos_3d, gyroscope, accelerometer, pipe_ts, video_ts, eye_video_ts, sync_port].
     ch_name c \<notin> set [''pupil center left'', ''pupil center right'', ''pupil diameter left'',
            ''pupil diameter right'', ''gaze direction left'', ''gaze direction right''] \<and>
     ch_name c \<in> set [''gaze position'', ''gaze position 3D'', ''MEMS gyroscope'', ''MEMS accelerometer'',
            ''pipeline timestamp'', ''video timestamp'', ''evts'', ''sync port''] \<and>
     (\<forall>n. ch_name c \<noteq> ''channel '' @ n) \<and>
     (\<forall>c'\<in>set [gaze_pos, gaze_pos_3d, gyroscope, accelerometer, pipe_ts, video_ts, eye_video_ts, sync_port].
        ch_name c' = ch_name c \<longrightarrow> ch_prop c' = ch_prop c)"
  by (simp add: channel_defs)

text \<open>
  Claim C10. When \<open>convert\<close> completes on a stream of records, the six eye-specific
  arrays are in the block and in the secondary group, whatever they hold. Each of the other
  eight arrays is in the block as well, but it is in the secondary group exactly when some
  record has its property; when none has, no multi-tag references it.
\<close>

theorem tobii_group_membership:
  assumes "convert time trigger data sr (TobiiRecords recs) eeg_offset tobii_offset =
             Inr (b, group_eeg, group_tobii)"
  shows "(\<forall>n\<in>set [''pupil center left'', ''pupil center right'', ''pupil diameter left'',
                  ''pupil diameter right'', ''gaze direction left'', ''gaze direction right''].
            n \<in> set (map da_name (data_arrays b)) \<and> n \<in> set (g_data_arrays group_tobii)) \<and>
         (\<forall>c\<in>set [gaze_pos, gaze_pos_3d, gyroscope, accelerometer, pipe_ts, video_ts,
                  eye_video_ts, sync_port].
            ch_name c \<in> set (map da_name (data_arrays b)) \<and>
            (ch_name c \<in> set (g_data_arrays group_tobii) \<longleftrightarrow>
               filter (\<lambda>e. e (ch_prop c) \<noteq> None) recs \<noteq> []) \<and>
            (filter (\<lambda>e. e (ch_prop c) \<noteq> None) recs = [] \<longrightarrow>
               (\<forall>mt\<in>set (multi_tags b). ch_name c \<notin> set (mt_references mt))))"
proof -
  let ?six = "[''pupil center left'', ''pupil center right'', ''pupil diameter left'',
               ''pupil diameter right'', ''gaze direction left'', ''gaze direction right'']"
  let ?eight = "[gaze_pos, gaze_pos_3d, gyroscope, accelerometer, pipe_ts, video_ts,
                 eye_video_ts, sync_port]"
  let ?P = "\<lambda>c. filter (\<lambda>e. e (ch_prop c) \<noteq> None) recs = []"
  from convert_Inr[OF assms] obtain b1 b2 b3 where
    1: "write_channel_data empty_block data time sr eeg_offset = (b1, group_eeg)" and
    2: "write_trigger_signal b1 trigger time group_eeg eeg_offset = Inr b2" and
    3: "write_tobii_data b2 (TobiiRecords recs) tobii_offset = Inr (b3, group_tobii)" and
    4: "b = save_events b3 trigger group_eeg group_tobii" by blast
  from write_tobii_data_Inr[OF 3] have
    G: "g_data_arrays group_tobii =
          ?six @ concat (map (\<lambda>c. if ?P c then [] else [ch_name c]) ?eight)" and
    D: "map da_name (data_arrays b3) = map da_name (data_arrays b2) @ ?six @
          [''gaze position'', ''gaze position 3D'', ''MEMS gyroscope'', ''MEMS accelerometer'',
           ''pipeline timestamp'', ''video timestamp'', ''evts'', ''sync port'']"
    by simp_all
  have B: "set (map da_name (data_arrays b3)) \<subseteq> set (map da_name (data_arrays b))"
    unfolding 4 by (auto simp: save_events_data_arrays)
  have six: "\<forall>n\<in>set ?six. n \<in> set (map da_name (data_arrays b)) \<and> n \<in> set (g_data_arrays group_tobii)"
  proof
    fix n assume n: "n \<in> set ?six"
    then have "n \<in> set (map da_name (data_arrays b3))"
      unfolding D by (simp only: set_append Un_iff simp_thms)
    moreover have "n \<in> set (g_data_arrays group_tobii)"
      unfolding G using n by (simp only: set_append Un_iff simp_thms)
    ultimately show "n \<in> set (map da_name (data_arrays b)) \<and> n \<in> set (g_data_arrays group_tobii)"
      using B by blast
  qed
  have E: "g_data_arrays group_eeg = map (\<lambda>ch. ''channel '' @ digits (ch + 1)) [0..<length data]"
    by (rule convert_group_eeg[OF assms])
  have eight: "\<forall>c\<in>set ?eight.
            ch_name c \<in> set (map da_name (data_arrays b)) \<and>
            (ch_name c \<in> set (g_data_arrays group_tobii) \<longleftrightarrow> \<not> ?P c) \<and>
            (?P c \<longrightarrow> (\<forall>mt\<in>set (multi_tags b). ch_name c \<notin> set (mt_references mt)))"
  proof
    fix c assume c: "c \<in> set ?eight"
    have N: "ch_name c \<notin> set ?six"
      and N2: "ch_name c \<in> set [''gaze position'', ''gaze position 3D'', ''MEMS gyroscope'',
            ''MEMS accelerometer'', ''pipeline timestamp'', ''video timestamp'', ''evts'', ''sync port'']"
      and N3: "\<forall>n. ch_name c \<noteq> ''channel '' @ n"
      and N4: "\<forall>c'\<in>set ?eight. ch_name c' = ch_name c \<longrightarrow> ch_prop c' = ch_prop c"
      using group_channel_names c by blast+
    have a: "ch_name c \<in> set (map da_name (data_arrays b))"
    proof -
      have "ch_name c \<in> set (map da_name (data_arrays b3))"
        unfolding D using N2 by (simp only: set_append Un_iff simp_thms)
      then show ?thesis using B by blast
    qed
    have m: "ch_name c \<in> set (g_data_arrays group_tobii) \<longleftrightarrow> \<not> ?P c"
    proof
      assume "ch_name c \<in> set (g_data_arrays group_tobii)"
      then have "ch_name c \<in> set ?six \<or>
          ch_name c \<in> set (concat (map (\<lambda>c. if ?P c then [] else [ch_name c]) ?eight))"
        unfolding G by (simp only: set_append Un_iff)
      then have "ch_name c \<in> set (concat (map (\<lambda>c. if ?P c then [] else [ch_name c]) ?eight))"
        using N by blast
      then obtain c' where c': "c' \<in> set ?eight" "\<not> ?P c'" "ch_name c' = ch_name c"
        unfolding mem_concat_if by blast
      then have "ch_prop c' = ch_prop c" using N4 by blast
      then show "\<not> ?P c" using c'(2) by simp
    next
      assume "\<not> ?P c"
      then have "ch_name c \<in> set (concat (map (\<lambda>c. if ?P c then [] else [ch_name c]) ?eight))"
        unfolding mem_concat_if using c by blast
      then show "ch_name c \<in> set (g_data_arrays group_tobii)"
        unfolding G by (simp only: set_append Un_iff simp_thms)
    qed
    have r: "?P c \<longrightarrow> (\<forall>mt\<in>set (multi_tags b). ch_name c \<notin> set (mt_references mt))"
    proof
      assume p: "?P c"
      have "ch_name c \<notin> set (g_data_arrays group_eeg)" unfolding E using N3 by auto
      moreover have "ch_name c \<notin> set (g_data_arrays group_tobii)" using m p by blast
      ultimately show "\<forall>mt\<in>set (multi_tags b). ch_name c \<notin> set (mt_references mt)"
        unfolding convert_multi_tags[OF assms] by simp
    qed
    from a m r show "ch_name c \<in> set (map da_name (data_arrays b)) \<and>
            (ch_name c \<in> set (g_data_arrays group_tobii) \<longleftrightarrow> \<not> ?P c) \<and>
            (?P c \<longrightarrow> (\<forall>mt\<in>set (multi_tags b). ch_name c \<notin> set (mt_references mt)))"
      by blast
  qed
  show ?thesis by (rule conjI[OF six eight])
qed


text \<open>
  In the small conversion the left pupil centre is empty and in the group, the gaze position
  is not empty and in the group, and the sync port is empty: it is in the block, not in the
  group, and not referenced.
\<close>

theorem tobii_group_membership_witness:
  "\<exists>b ge gt. convert [0, 1, 2] [0, 8, 0] [[1, 2, 3]] 1
     (TobiiRecords [[''ts'' \<mapsto> PNum 7, ''s'' \<mapsto> PNum 0, ''pd'' \<mapsto> PNum 3, ''eye'' \<mapsto> PStr ''left''],
                    [''ts'' \<mapsto> PNum 5, ''s'' \<mapsto> PNum 0, ''gp'' \<mapsto> PList [PNum 1, PNum 2], ''l'' \<mapsto> PNum 9]])
     (PNum 0) (PNum 1) = Inr (b, ge, gt) \<and>
     ''pupil center left'' \<in> set (g_data_arrays gt) \<and>
     ''gaze position'' \<in> set (g_data_arrays gt) \<and>
     ''sync port'' \<in> set (map da_name (data_arrays b)) \<and>
     ''sync port'' \<notin> set (g_data_arrays gt) \<and>
     list_all (\<lambda>mt. ''sync port'' \<notin> set (mt_references mt)) (multi_tags b)"
proof -
  let ?recs = "[[''ts'' \<mapsto> PNum 7, ''s'' \<mapsto> PNum 0, ''pd'' \<mapsto> PNum 3, ''eye'' \<mapsto> PStr ''left''],
                [''ts'' \<mapsto> PNum 5, ''s'' \<mapsto> PNum 0, ''gp'' \<mapsto> PList [PNum 1, PNum 2], ''l'' \<mapsto> PNum 9]]"
  from convert_example obtain b ge gt where
    c: "convert [0, 1, 2] [0, 8, 0] [[1, 2, 3]] 1
     (TobiiRecords [[''ts'' \<mapsto> PNum 7, ''s'' \<mapsto> PNum 0, ''pd'' \<mapsto> PNum 3, ''eye'' \<mapsto> PStr ''left''],
                    [''ts'' \<mapsto> PNum 5, ''s'' \<mapsto> PNum 0, ''gp'' \<mapsto> PList [PNum 1, PNum 2], ''l'' \<mapsto> PNum 9]])
     (PNum 0) (PNum 1) = Inr (b, ge, gt)" by blast
  note T = tobii_group_membership[OF c]
  have six: "''pupil center left'' \<in> set (g_data_arrays gt)"
    using T[THEN conjunct1, THEN bspec, of "''pupil center left''"] by simp
  have gp: "''gaze position'' \<in> set (g_data_arrays gt)"
    using T[THEN conjunct2, THEN bspec, of gaze_pos] by (simp add: gaze_pos_def)
  have sp: "''sync port'' \<in> set (map da_name (data_arrays b)) \<and>
     ''sync port'' \<notin> set (g_data_arrays gt) \<and>
     list_all (\<lambda>mt. ''sync port'' \<notin> set (mt_references mt)) (multi_tags b)"
    using T[THEN conjunct2, THEN bspec, of sync_port] by (simp add: sync_port_def list_all_iff)
  from c six gp sp show ?thesis
    by - (rule exI[of _ b], rule exI[of _ ge], rule exI[of _ gt], simp)
qed

section \<open>Properties of main\<close>

text \<open>Because of line 184, \<open>determine_offsets\<close> raises on every input.\<close>

lemma determine_offsets_raises: "\<exists>e. determine_offsets time trigger tobii_data = Inl e"
  by (auto simp: determine_offsets_def dict_add_def split: sum.splits)





end
